theory Spec2Isabelle
  imports Main
begin

section \<open>Data model\<close>

text \<open>
  A JavaScript value as it can appear in a decoded token payload. Reading a field that an
  object does not have gives \<open>undefined\<close>, which is \<open>None\<close> here. Numbers are the
  integers (the ids of the schema are \<open>SERIAL\<close> columns). \<open>JObject\<close> stands for
  any object or array: always truthy, never \<open>===\<close> to a string.
\<close>

datatype jsval = JNull | JBool bool | JNum int | JStr string | JObject

text \<open>The payload of a token, the value stored in \<open>res.locals.user\<close>.\<close>

type_synonym claims = "string \<rightharpoonup> jsval"

text \<open>
  The request-scoped state the middleware of \<open>middleware/auth.js\<close> reads and writes:
  \<open>req.headers\<close> (node lower-cases the names), \<open>req.params\<close> and \<open>res.locals.user\<close>.
\<close>

record request_ctx =
  headers :: "string \<rightharpoonup> string"
  params :: "string \<rightharpoonup> string"
  user :: "claims option"

text \<open>
  The errors that leave the middleware. \<open>UnauthorizedError\<close> carries the message the
  call site passes to the constructor, \<open>None\<close> for \<open>new UnauthorizedError()\<close>.
  \<open>DataAccessError\<close> is whatever \<open>db.query\<close> rejected with.
\<close>

datatype error = UnauthorizedError "string option" | DataAccessError string

text \<open>
  How a middleware ends: \<open>next()\<close>, \<open>next(err)\<close>, a synchronous \<open>throw\<close>, or the
  rejected promise of an \<open>async\<close> function that throws.
\<close>

datatype signal = Next | NextErr error | Throws error | Rejects error

fun failure :: "signal \<Rightarrow> error option" where
  "failure Next = None"
| "failure (NextErr e) = Some e"
| "failure (Throws e) = Some e"
| "failure (Rejects e) = Some e"

text \<open>The route handler behind a middleware runs only after \<open>next()\<close> without an argument.\<close>

definition proceeds :: "signal \<Rightarrow> bool" where
  "proceeds s = (s = Next)"

definition is_unauthorized :: "error \<Rightarrow> bool" where
  "is_unauthorized e = (case e of UnauthorizedError m \<Rightarrow> True | DataAccessError m \<Rightarrow> False)"

section \<open>JavaScript primitives used by the middleware\<close>

text \<open>\<open>res.locals.user?.f\<close>: \<open>undefined\<close> when there is no user or no such field.\<close>

definition get_field :: "claims option \<Rightarrow> string \<Rightarrow> jsval option" where
  "get_field u f = (case u of None \<Rightarrow> None | Some c \<Rightarrow> c f)"

text \<open>Truthiness of a value that may be \<open>undefined\<close>.\<close>

fun truthy :: "jsval option \<Rightarrow> bool" where
  "truthy None = False"
| "truthy (Some JNull) = False"
| "truthy (Some (JBool b)) = b"
| "truthy (Some (JNum n)) = (n \<noteq> 0)"
| "truthy (Some (JStr s)) = (s \<noteq> [])"
| "truthy (Some JObject) = True"

text \<open>\<open>v === s\<close> for a value \<open>v\<close> and a string \<open>s\<close>, either of which may be \<open>undefined\<close>.\<close>

fun strict_eq_str :: "jsval option \<Rightarrow> string option \<Rightarrow> bool" where
  "strict_eq_str None None = True"
| "strict_eq_str (Some (JStr a)) (Some b) = (a = b)"
| "strict_eq_str _ _ = False"

section \<open>Token service\<close>

text \<open>
  \<open>jwt.sign\<close> and \<open>jwt.verify\<close> belong to the jsonwebtoken package and
  \<open>SECRET_KEY\<close> to the configuration module; the functions below take them as
  parameters. A verification that throws is \<open>Inl\<close> with the message of the error.
\<close>

type_synonym jwt_sign = "claims \<Rightarrow> string \<Rightarrow> string"
type_synonym jwt_verify = "string \<Rightarrow> string \<Rightarrow> string + claims"

text \<open>
  \<open>createToken\<close> of \<open>helpers/tokens.js\<close>: the payload has the fields \<open>email\<close> and
  \<open>role\<close> of the user and no other; a field the user lacks is \<open>undefined\<close> in
  the payload too.
\<close>

definition createToken :: "jwt_sign \<Rightarrow> string \<Rightarrow> claims \<Rightarrow> string" where
  "createToken sign SECRET_KEY usr =
     (let payload = Map.empty(''email'' := usr ''email'', ''role'' := usr ''role'')
      in sign payload SECRET_KEY)"

section \<open>Identity resolution\<close>

text \<open>
  The white space \<open>String.prototype.trim\<close> removes, among the characters a header value
  can hold (code points 0 to 255): TAB, LF, VT, FF, CR, SP and NBSP.
\<close>

definition js_whitespace :: "char \<Rightarrow> bool" where
  "js_whitespace c = (of_char c \<in> {9, 10, 11, 12, 13, 32, 160 :: nat})"

definition trim :: "string \<Rightarrow> string" where
  "trim s = rev (dropWhile js_whitespace (rev (dropWhile js_whitespace s)))"

text \<open>\<open>s.replace(/^[Bb]earer /, "")\<close>\<close>

definition replace_bearer :: "string \<Rightarrow> string" where
  "replace_bearer s =
     (case s of
        [] \<Rightarrow> s
      | c # cs \<Rightarrow>
          if (c = CHR ''B'' \<or> c = CHR ''b'') \<and> take 6 cs = ''earer '' then drop 6 cs else s)"

definition authenticateJWT :: "jwt_verify \<Rightarrow> string \<Rightarrow> request_ctx \<Rightarrow> signal \<times> request_ctx" where
  "authenticateJWT verify SECRET_KEY ctx =
     (case headers ctx ''authorization'' of
        None \<Rightarrow> (Next, ctx)
      | Some authHeader \<Rightarrow>
          if authHeader = [] then (Next, ctx)
          else
            (let token = trim (replace_bearer authHeader) in
             case verify token SECRET_KEY of
               Inr payload \<Rightarrow> (Next, ctx\<lparr>user := Some payload\<rparr>)
             | Inl err \<Rightarrow> (Next, ctx)))"

section \<open>Authorization predicates\<close>

definition ensureSuperAdmin :: "request_ctx \<Rightarrow> signal \<times> request_ctx" where
  "ensureSuperAdmin ctx =
     (if strict_eq_str (get_field (user ctx) ''role'') (Some ''super_admin'') then (Next, ctx)
      else (Throws (UnauthorizedError None), ctx))"

definition ensureLoggedIn :: "request_ctx \<Rightarrow> signal \<times> request_ctx" where
  "ensureLoggedIn ctx =
     (if truthy (get_field (user ctx) ''email'') then (Next, ctx)
      else (Throws (UnauthorizedError None), ctx))"

text \<open>An \<open>async\<close> function: its \<open>throw\<close> is a rejected promise.\<close>

definition ensureCorrectUser :: "request_ctx \<Rightarrow> signal \<times> request_ctx" where
  "ensureCorrectUser ctx =
     (let currentUser = get_field (user ctx) ''email'' in
      if truthy currentUser \<and> strict_eq_str currentUser (params ctx ''email'') then (Next, ctx)
      else (Rejects (UnauthorizedError None), ctx))"

definition ensureSuperAdminOrCorrectUser :: "request_ctx \<Rightarrow> signal \<times> request_ctx" where
  "ensureSuperAdminOrCorrectUser ctx =
     (let currentUser = get_field (user ctx) ''email'';
          isSuperAdmin = strict_eq_str (get_field (user ctx) ''role'') (Some ''super_admin'') in
      if isSuperAdmin \<or> (truthy currentUser \<and> strict_eq_str currentUser (params ctx ''email''))
      then (Next, ctx)
      else (Throws (UnauthorizedError None), ctx))"

section \<open>Membership lookup\<close>

text \<open>
  \<open>db.query\<close> on the one statement \<open>Database.isUserLinkedToDatabase\<close> sends,
  \<open>SELECT user_id FROM user_databases WHERE user_id = $1 AND database_id = $2\<close>, is a
  parameter: from the two query parameters to the \<open>user_id\<close> column of the rows
  returned, or \<open>Inl\<close> with the message of the error the query rejected with.
\<close>

type_synonym db_query = "jsval \<Rightarrow> string \<Rightarrow> string + int list"

text \<open>The \<open>catch\<close> logs the error and throws it again.\<close>

definition isUserLinkedToDatabase :: "db_query \<Rightarrow> jsval \<Rightarrow> string \<Rightarrow> error + bool" where
  "isUserLinkedToDatabase query userId databaseId =
     (case query userId databaseId of
        Inr rows \<Rightarrow> Inr (length rows > 0)
      | Inl err \<Rightarrow> Inl (DataAccessError err))"

text \<open>
  \<open>ensureDatabaseUser\<close>: every \<open>throw\<close> is inside the \<open>try\<close>, whose \<open>catch\<close>
  hands the error to \<open>next\<close>. The two \<open>console.log\<close> calls write to the process's
  standard output and touch nothing of the request.
\<close>

definition ensureDatabaseUser :: "db_query \<Rightarrow> request_ctx \<Rightarrow> signal \<times> request_ctx" where
  "ensureDatabaseUser query ctx =
     (let userId = get_field (user ctx) ''id'';
          databaseId = headers ctx ''database-id'' in
      case userId of
        None \<Rightarrow> (NextErr (UnauthorizedError (Some ''User authentication required.'')), ctx)
      | Some uid \<Rightarrow>
          if \<not> truthy userId
          then (NextErr (UnauthorizedError (Some ''User authentication required.'')), ctx)
          else
            (case databaseId of
               None \<Rightarrow> (NextErr (UnauthorizedError (Some ''Database connection required.'')), ctx)
             | Some did \<Rightarrow>
                 if did = []
                 then (NextErr (UnauthorizedError (Some ''Database connection required.'')), ctx)
                 else
                   (case isUserLinkedToDatabase query uid did of
                      Inl err \<Rightarrow> (NextErr err, ctx)
                    | Inr isAuthorized \<Rightarrow>
                        if \<not> isAuthorized
                        then (NextErr (UnauthorizedError
                                (Some ''User not authorized to access this database.'')), ctx)
                        else (Next, ctx))))"

section \<open>Vocabulary of the properties\<close>

text \<open>\<open>s\<close> starts with \<open>p\<close>.\<close>

definition begins_with :: "string \<Rightarrow> string \<Rightarrow> bool" where
  "begins_with p s = (take (length p) s = p)"

text \<open>
  What the specification promises of an authorization predicate run on \<open>ctx\<close>: the
  context is left as it was, and the predicate either proceeds or fails with an
  \<open>UnauthorizedError\<close>.
\<close>

definition unchanged_or_unauthorized :: "request_ctx \<Rightarrow> signal \<times> request_ctx \<Rightarrow> bool" where
  "unchanged_or_unauthorized ctx r =
     (snd r = ctx \<and>
      (proceeds (fst r) \<or>
       (case failure (fst r) of None \<Rightarrow> False | Some e \<Rightarrow> is_unauthorized e)))"

text \<open>
  The contract of the jsonwebtoken package that the properties of issued tokens rest on:
  verifying a token signed under the same key yields no field beyond those of the signed
  payload and the \<open>iat\<close> timestamp the package adds.
\<close>

definition verify_adds_only_iat :: "jwt_sign \<Rightarrow> jwt_verify \<Rightarrow> string \<Rightarrow> bool" where
  "verify_adds_only_iat sign verify k =
     (\<forall>p c. verify (sign p k) k = Inr c \<longrightarrow> dom c \<subseteq> dom p \<union> {''iat''})"

subsection \<open>Stand-ins for the external services, for concrete runs\<close>

text \<open>A verifier that accepts the one token \<open>tok\<close>, with payload \<open>c\<close>.\<close>

definition accept_only :: "string \<Rightarrow> claims \<Rightarrow> jwt_verify" where
  "accept_only tok c t k = (if t = tok then Inr c else Inl ''invalid token'')"

text \<open>
  A signer that writes the key and the email in clear, and its verifier, which adds
  \<open>iat\<close>.
\<close>

definition plain_sign :: jwt_sign where
  "plain_sign p k = k @ ''|'' @ (case p ''email'' of Some (JStr e) \<Rightarrow> e | _ \<Rightarrow> [])"

definition plain_verify :: jwt_verify where
  "plain_verify t k =
     (if begins_with (k @ ''|'') t
      then (let e = drop (length k + 1) t in
            Inr (if e = [] then [''iat'' \<mapsto> JNum 0]
                 else [''email'' \<mapsto> JStr e, ''iat'' \<mapsto> JNum 0]))
      else Inl ''invalid signature'')"

text \<open>A request context written out: its headers, its route parameters, its identity.\<close>

definition request ::
  "(string \<times> string) list \<Rightarrow> (string \<times> string) list \<Rightarrow> claims option \<Rightarrow> request_ctx" where
  "request hs ps u = \<lparr>headers = map_of hs, params = map_of ps, user = u\<rparr>"

text \<open>A storage that cannot be reached, and one that holds the given membership rows.\<close>

definition unreachable :: "string \<Rightarrow> db_query" where
  "unreachable msg userId databaseId = Inl msg"

definition stored_rows :: "(int \<times> string) list \<Rightarrow> db_query" where
  "stored_rows rows userId databaseId =
     Inr (map fst (filter (\<lambda>r. JNum (fst r) = userId \<and> snd r = databaseId) rows))"

section \<open>Auxiliary facts\<close>

lemma strict_eq_str_Some: "strict_eq_str v (Some s) = (v = Some (JStr s))"
  by (cases "(v, Some s)" rule: strict_eq_str.cases) auto

lemma subject_match_iff:
  "(truthy v \<and> strict_eq_str v p) = (\<exists>e. v = Some (JStr e) \<and> e \<noteq> [] \<and> p = Some e)"
  by (cases "(v, p)" rule: strict_eq_str.cases) auto

lemma proceeds_iff_no_failure: "proceeds s = (failure s = None)"
  by (cases s) (simp_all add: proceeds_def)

lemma begins_with_scheme:
  "begins_with ''Bearer '' s = (take 7 s = ''Bearer '')"
  "begins_with ''bearer '' s = (take 7 s = ''bearer '')"
  by (simp_all add: begins_with_def eval_nat_numeral)

lemma replace_bearer_other:
  "\<not> begins_with ''Bearer '' s \<Longrightarrow> \<not> begins_with ''bearer '' s \<Longrightarrow> replace_bearer s = s"
proof (cases s)
  case Nil
  then show ?thesis by (simp add: replace_bearer_def)
next
  case (Cons c cs)
  assume "\<not> begins_with ''Bearer '' s" "\<not> begins_with ''bearer '' s"
  moreover have "take 7 (c # cs) = c # take 6 cs"
    by simp
  ultimately show ?thesis
    using Cons unfolding replace_bearer_def begins_with_scheme by auto
qed

lemma replace_bearer_strips:
  "p = ''Bearer '' \<or> p = ''bearer '' \<Longrightarrow> replace_bearer (p @ r) = r"
  by (auto simp: replace_bearer_def)

text \<open>The middleware always calls \<open>next()\<close>; this is the context it leaves.\<close>

lemma authenticateJWT_result:
  "authenticateJWT verify k ctx =
     (Next,
      case headers ctx ''authorization'' of
        None \<Rightarrow> ctx
      | Some h \<Rightarrow>
          if h = [] then ctx
          else (case verify (trim (replace_bearer h)) k of
                  Inr c \<Rightarrow> ctx\<lparr>user := Some c\<rparr>
                | Inl m \<Rightarrow> ctx))"
  by (simp add: authenticateJWT_def Let_def split: option.splits sum.splits)

text \<open>The payload \<open>createToken\<close> signs is the user cut down to \<open>email\<close> and \<open>role\<close>.\<close>

lemma createToken_payload:
  "createToken sign k usr = sign (usr |` {''email'', ''role''}) k"
proof -
  have "Map.empty(''email'' := usr ''email'', ''role'' := usr ''role'')
          = usr |` {''email'', ''role''}"
    by (rule ext) (simp add: restrict_map_def)
  then show ?thesis
    by (simp add: createToken_def)
qed

lemma plain_adds_only_iat: "verify_adds_only_iat plain_sign plain_verify k"
  by (auto simp: verify_adds_only_iat_def plain_sign_def plain_verify_def begins_with_def
      Let_def split: if_splits option.splits jsval.splits)

lemma isUserLinkedToDatabase_error:
  "isUserLinkedToDatabase q uid did = Inl e \<Longrightarrow> \<exists>msg. e = DataAccessError msg \<and> q uid did = Inl msg"
  by (auto simp: isUserLinkedToDatabase_def split: sum.splits)

text \<open>The three exits of \<open>ensureDatabaseUser\<close>, in the order of its checks.\<close>

lemma ensureDatabaseUser_no_id:
  "\<not> truthy (get_field (user ctx) ''id'') \<Longrightarrow>
     ensureDatabaseUser q ctx =
       (NextErr (UnauthorizedError (Some ''User authentication required.'')), ctx)"
  by (cases "get_field (user ctx) ''id''") (simp_all add: ensureDatabaseUser_def)

lemma ensureDatabaseUser_no_database:
  "truthy (get_field (user ctx) ''id'') \<Longrightarrow>
   headers ctx ''database-id'' = None \<or> headers ctx ''database-id'' = Some [] \<Longrightarrow>
     ensureDatabaseUser q ctx =
       (NextErr (UnauthorizedError (Some ''Database connection required.'')), ctx)"
  by (cases "get_field (user ctx) ''id''") (auto simp: ensureDatabaseUser_def)

lemma ensureDatabaseUser_lookup:
  "get_field (user ctx) ''id'' = Some uid \<Longrightarrow> truthy (Some uid) \<Longrightarrow>
   headers ctx ''database-id'' = Some did \<Longrightarrow> did \<noteq> [] \<Longrightarrow>
     ensureDatabaseUser q ctx =
       (case isUserLinkedToDatabase q uid did of
          Inl e \<Rightarrow> (NextErr e, ctx)
        | Inr isAuthorized \<Rightarrow>
            if isAuthorized then (Next, ctx)
            else (NextErr (UnauthorizedError
                    (Some ''User not authorized to access this database.'')), ctx))"
  by (simp add: ensureDatabaseUser_def Let_def split: sum.splits)

section \<open>Identity resolution: claims C4, C8, C10\<close>

text \<open>
  C4. \<open>authenticateJWT\<close> never fails the request: it always ends in \<open>next()\<close>. With
  no Authorization header it leaves the context as it was; with a token whose verification
  throws it leaves the context as it was too, so the identity afterwards is the one the
  same request without the header would have; it attaches claims exactly when
  verification succeeds.
\<close>

theorem authenticateJWT_never_fails:
  "fst (authenticateJWT verify k ctx) = Next
   \<and> (headers ctx ''authorization'' = None \<longrightarrow> authenticateJWT verify k ctx = (Next, ctx))
   \<and> (\<forall>h m. headers ctx ''authorization'' = Some h
             \<and> verify (trim (replace_bearer h)) k = Inl m
          \<longrightarrow> authenticateJWT verify k ctx = (Next, ctx)
              \<and> user (snd (authenticateJWT verify k ctx))
                  = user (snd (authenticateJWT verify k
                       (ctx\<lparr>headers := (headers ctx)(''authorization'' := None)\<rparr>))))
   \<and> (\<forall>h c. headers ctx ''authorization'' = Some h \<and> h \<noteq> []
             \<and> verify (trim (replace_bearer h)) k = Inr c
          \<longrightarrow> authenticateJWT verify k ctx = (Next, ctx\<lparr>user := Some c\<rparr>))
   \<and> (snd (authenticateJWT verify k ctx) \<noteq> ctx
          \<longrightarrow> (\<exists>h c. headers ctx ''authorization'' = Some h
                   \<and> verify (trim (replace_bearer h)) k = Inr c))"
  by (auto simp: authenticateJWT_result split: option.splits sum.splits)

text \<open>
  A request without the header, one with a token that does not verify, and one with the
  token that does.
\<close>

theorem authenticateJWT_never_fails_witness:
  "authenticateJWT (accept_only ''good'' [''email'' \<mapsto> JStr ''ann@erp.io'']) ''key''
      (request [] [] None) = (Next, request [] [] None)
   \<and> authenticateJWT (accept_only ''good'' [''email'' \<mapsto> JStr ''ann@erp.io'']) ''key''
      (request [(''authorization'', ''Bearer forged'')] [] None)
       = (Next, request [(''authorization'', ''Bearer forged'')] [] None)
   \<and> authenticateJWT (accept_only ''good'' [''email'' \<mapsto> JStr ''ann@erp.io'']) ''key''
      (request [(''authorization'', ''Bearer good'')] [] None)
       = (Next, request [(''authorization'', ''Bearer good'')] []
                  (Some [''email'' \<mapsto> JStr ''ann@erp.io'']))"
  using authenticateJWT_never_fails
      [of "accept_only ''good'' [''email'' \<mapsto> JStr ''ann@erp.io'']" "''key''"
        "request [] [] None"]
    authenticateJWT_never_fails
      [of "accept_only ''good'' [''email'' \<mapsto> JStr ''ann@erp.io'']" "''key''"
        "request [(''authorization'', ''Bearer forged'')] [] None"]
    authenticateJWT_never_fails
      [of "accept_only ''good'' [''email'' \<mapsto> JStr ''ann@erp.io'']" "''key''"
        "request [(''authorization'', ''Bearer good'')] [] None"]
  by (simp add: request_def accept_only_def trim_def replace_bearer_def js_whitespace_def)

text \<open>
  C8, as the specification states it: the scheme word is matched whatever its
  capitalization. It is not: \<open>BEARER abc\<close> is handed to verification whole, so the
  token \<open>abc\<close>, which verifies, attaches no identity.
\<close>

theorem authenticateJWT_uppercase_scheme_counterexample:
  "trim (replace_bearer ''BEARER abc'') = ''BEARER abc''
   \<and> accept_only ''abc'' [''email'' \<mapsto> JStr ''ann@erp.io''] ''abc'' ''key''
       = Inr [''email'' \<mapsto> JStr ''ann@erp.io'']
   \<and> authenticateJWT (accept_only ''abc'' [''email'' \<mapsto> JStr ''ann@erp.io'']) ''key''
        (request [(''authorization'', ''BEARER abc'')] [] None)
       = (Next, request [(''authorization'', ''BEARER abc'')] [] None)"
  by (simp add: authenticateJWT_def request_def trim_def replace_bearer_def js_whitespace_def
      accept_only_def)

text \<open>
  C8, amended: when the Authorization header starts with \<open>Bearer\<close> or \<open>bearer\<close>
  and a space, the middleware removes that prefix and the white space around what is left,
  and hands the rest to verification. A header that starts with neither, so one with any
  other capitalization of the scheme word, is not stripped: it is handed to verification
  whole, with only the white space around it removed.
\<close>

theorem authenticateJWT_bearer_prefix:
  assumes "headers ctx ''authorization'' = Some h"
  shows "(\<forall>r. h = ''Bearer '' @ r \<or> h = ''bearer '' @ r \<longrightarrow>
            trim (replace_bearer h) = trim r
            \<and> authenticateJWT verify k ctx =
                (Next, case verify (trim r) k of
                         Inr c \<Rightarrow> ctx\<lparr>user := Some c\<rparr>
                       | Inl m \<Rightarrow> ctx))
       \<and> (\<not> begins_with ''Bearer '' h \<and> \<not> begins_with ''bearer '' h \<longrightarrow>
            replace_bearer h = h
            \<and> (h \<noteq> [] \<longrightarrow>
                 authenticateJWT verify k ctx =
                   (Next, case verify (trim h) k of
                            Inr c \<Rightarrow> ctx\<lparr>user := Some c\<rparr>
                          | Inl m \<Rightarrow> ctx)))"
proof (intro conjI allI impI)
  fix r
  assume h: "h = ''Bearer '' @ r \<or> h = ''bearer '' @ r"
  then have "replace_bearer h = r"
    using replace_bearer_strips [of "''Bearer ''" r] replace_bearer_strips [of "''bearer ''" r]
    by blast
  then show stripped: "trim (replace_bearer h) = trim r"
    by simp
  from h have "h \<noteq> []"
    by auto
  then show "authenticateJWT verify k ctx =
      (Next, case verify (trim r) k of Inr c \<Rightarrow> ctx\<lparr>user := Some c\<rparr> | Inl m \<Rightarrow> ctx)"
    using assms stripped by (simp add: authenticateJWT_result)
next
  assume other: "\<not> begins_with ''Bearer '' h \<and> \<not> begins_with ''bearer '' h"
  then show kept: "replace_bearer h = h"
    by (simp add: replace_bearer_other)
  assume "h \<noteq> []"
  then show "authenticateJWT verify k ctx =
      (Next, case verify (trim h) k of Inr c \<Rightarrow> ctx\<lparr>user := Some c\<rparr> | Inl m \<Rightarrow> ctx)"
    using assms kept by (simp add: authenticateJWT_result)
qed

text \<open>The lower-case scheme with white space around the token, and a scheme in mixed case
  before the same token.\<close>

theorem authenticateJWT_bearer_prefix_witness:
  "headers (request [(''authorization'', ''bearer  abc '')] [] None) ''authorization''
       = Some (''bearer '' @ '' abc '')
   \<and> trim '' abc '' = ''abc''
   \<and> authenticateJWT (accept_only ''abc'' [''email'' \<mapsto> JStr ''ann@erp.io'']) ''key''
        (request [(''authorization'', ''bearer  abc '')] [] None)
       = (Next, request [(''authorization'', ''bearer  abc '')] []
                  (Some [''email'' \<mapsto> JStr ''ann@erp.io'']))
   \<and> \<not> begins_with ''Bearer '' ''BeArEr abc'' \<and> \<not> begins_with ''bearer '' ''BeArEr abc''
   \<and> replace_bearer ''BeArEr abc'' = ''BeArEr abc''
   \<and> authenticateJWT (accept_only ''abc'' [''email'' \<mapsto> JStr ''ann@erp.io'']) ''key''
        (request [(''authorization'', ''BeArEr abc'')] [] None)
       = (Next, request [(''authorization'', ''BeArEr abc'')] [] None)"
  using authenticateJWT_bearer_prefix
      [of "request [(''authorization'', ''bearer  abc '')] [] None" "''bearer  abc ''"
        "accept_only ''abc'' [''email'' \<mapsto> JStr ''ann@erp.io'']" "''key''"]
    authenticateJWT_bearer_prefix
      [of "request [(''authorization'', ''BeArEr abc'')] [] None" "''BeArEr abc''"
        "accept_only ''abc'' [''email'' \<mapsto> JStr ''ann@erp.io'']" "''key''"]
  by (simp add: request_def accept_only_def trim_def js_whitespace_def begins_with_def)

text \<open>
  C10. When the Authorization header starts with neither \<open>Bearer\<close> nor \<open>bearer\<close>
  and a space, the request ends as verification of the whole header, with the white space
  around it removed, decides; a bare token that verifies attaches its identity. For a
  header that is not empty this holds whatever the verifier; the middleware skips an empty
  header, which comes to the same under a verifier that rejects the empty token, as
  jsonwebtoken does.
\<close>

theorem authenticateJWT_bare_token:
  assumes "headers ctx ''authorization'' = Some h"
      and "\<not> begins_with ''Bearer '' h" and "\<not> begins_with ''bearer '' h"
      and "h = [] \<longrightarrow> (\<forall>c. verify [] k \<noteq> Inr c)"
  shows "authenticateJWT verify k ctx =
           (Next, case verify (trim h) k of
                    Inr c \<Rightarrow> ctx\<lparr>user := Some c\<rparr>
                  | Inl m \<Rightarrow> ctx)
         \<and> (\<forall>c. verify (trim h) k = Inr c
               \<longrightarrow> user (snd (authenticateJWT verify k ctx)) = Some c)"
proof (cases "h = []")
  case True
  with assms(4) obtain m where "verify [] k = Inl m"
    by (cases "verify [] k") auto
  with True assms(1) show ?thesis
    by (simp add: authenticateJWT_result trim_def)
next
  case False
  with assms show ?thesis
    by (simp add: authenticateJWT_result replace_bearer_other)
qed

text \<open>A bare token after a space, and an empty header.\<close>

theorem authenticateJWT_bare_token_witness:
  "headers (request [(''authorization'', '' abc'')] [] None) ''authorization'' = Some '' abc''
   \<and> \<not> begins_with ''Bearer '' '' abc'' \<and> \<not> begins_with ''bearer '' '' abc''
   \<and> user (snd (authenticateJWT (accept_only ''abc'' [''email'' \<mapsto> JStr ''ann@erp.io''])
        ''key'' (request [(''authorization'', '' abc'')] [] None)))
       = Some [''email'' \<mapsto> JStr ''ann@erp.io'']
   \<and> headers (request [(''authorization'', '''')] [] None) ''authorization'' = Some ''''
   \<and> accept_only ''abc'' [''email'' \<mapsto> JStr ''ann@erp.io''] '''' ''key''
       = Inl ''invalid token''
   \<and> authenticateJWT (accept_only ''abc'' [''email'' \<mapsto> JStr ''ann@erp.io'']) ''key''
        (request [(''authorization'', '''')] [] None)
       = (Next, request [(''authorization'', '''')] [] None)"
  using authenticateJWT_bare_token
      [of "request [(''authorization'', '' abc'')] [] None" "'' abc''"
        "accept_only ''abc'' [''email'' \<mapsto> JStr ''ann@erp.io'']" "''key''"]
    authenticateJWT_bare_token
      [of "request [(''authorization'', '''')] [] None" "''''"
        "accept_only ''abc'' [''email'' \<mapsto> JStr ''ann@erp.io'']" "''key''"]
  by (simp add: request_def accept_only_def trim_def js_whitespace_def begins_with_def)

section \<open>Subject and role predicates: claims C5, C6\<close>

text \<open>
  C6. With an identity present, \<open>ensureCorrectUser\<close> proceeds exactly when the
  identity's email is a string, is not empty, and is the string of the route parameter
  \<open>email\<close>, character for character; in every other case (another spelling or
  capitalization, no email, an empty one) it fails with \<open>UnauthorizedError\<close>.
\<close>

theorem ensureCorrectUser_exact:
  "user ctx = Some c \<Longrightarrow>
     (proceeds (fst (ensureCorrectUser ctx)) \<longleftrightarrow>
        (\<exists>e. c ''email'' = Some (JStr e) \<and> e \<noteq> [] \<and> params ctx ''email'' = Some e))
   \<and> (\<not> proceeds (fst (ensureCorrectUser ctx)) \<longrightarrow>
        ensureCorrectUser ctx = (Rejects (UnauthorizedError None), ctx))"
  by (simp add: ensureCorrectUser_def Let_def proceeds_def get_field_def subject_match_iff)

text \<open>The same identity on its own route, on the route spelt with a capital, and an
  identity with an empty email on a route with an empty parameter.\<close>

theorem ensureCorrectUser_exact_witness:
  "proceeds (fst (ensureCorrectUser
      (request [] [(''email'', ''ann@erp.io'')] (Some [''email'' \<mapsto> JStr ''ann@erp.io'']))))
   \<and> ensureCorrectUser
        (request [] [(''email'', ''Ann@erp.io'')] (Some [''email'' \<mapsto> JStr ''ann@erp.io'']))
       = (Rejects (UnauthorizedError None),
          request [] [(''email'', ''Ann@erp.io'')] (Some [''email'' \<mapsto> JStr ''ann@erp.io'']))
   \<and> ensureCorrectUser (request [] [(''email'', '''')] (Some [''email'' \<mapsto> JStr '''']))
       = (Rejects (UnauthorizedError None),
          request [] [(''email'', '''')] (Some [''email'' \<mapsto> JStr '''']))"
  using ensureCorrectUser_exact
      [of "request [] [(''email'', ''ann@erp.io'')] (Some [''email'' \<mapsto> JStr ''ann@erp.io''])"
        "[''email'' \<mapsto> JStr ''ann@erp.io'']"]
    ensureCorrectUser_exact
      [of "request [] [(''email'', ''Ann@erp.io'')] (Some [''email'' \<mapsto> JStr ''ann@erp.io''])"
        "[''email'' \<mapsto> JStr ''ann@erp.io'']"]
    ensureCorrectUser_exact
      [of "request [] [(''email'', '''')] (Some [''email'' \<mapsto> JStr ''''])"
        "[''email'' \<mapsto> JStr '''']"]
  by (simp add: request_def)

text \<open>
  C5. For an identity whose role is not \<open>super_admin\<close> (or no identity at all),
  \<open>ensureSuperAdminOrCorrectUser\<close> proceeds exactly when \<open>ensureCorrectUser\<close>
  proceeds on the same context; for the role \<open>super_admin\<close> it proceeds whatever the
  subject; when it does not proceed it fails with \<open>UnauthorizedError\<close>.
\<close>

theorem ensureSuperAdminOrCorrectUser_cases:
  "(get_field (user ctx) ''role'' \<noteq> Some (JStr ''super_admin'') \<longrightarrow>
      (proceeds (fst (ensureSuperAdminOrCorrectUser ctx))
         \<longleftrightarrow> proceeds (fst (ensureCorrectUser ctx))))
   \<and> (get_field (user ctx) ''role'' = Some (JStr ''super_admin'') \<longrightarrow>
        ensureSuperAdminOrCorrectUser ctx = (Next, ctx))
   \<and> (\<not> proceeds (fst (ensureSuperAdminOrCorrectUser ctx)) \<longrightarrow>
        ensureSuperAdminOrCorrectUser ctx = (Throws (UnauthorizedError None), ctx))"
  by (simp add: ensureSuperAdminOrCorrectUser_def ensureCorrectUser_def Let_def proceeds_def
      strict_eq_str_Some)

text \<open>A super admin on another user's route, a user on their own route, and a user on
  another user's route.\<close>

theorem ensureSuperAdminOrCorrectUser_cases_witness:
  "ensureSuperAdminOrCorrectUser
      (request [] [(''email'', ''ann@erp.io'')]
         (Some [''email'' \<mapsto> JStr ''root@erp.io'', ''role'' \<mapsto> JStr ''super_admin'']))
     = (Next, request [] [(''email'', ''ann@erp.io'')]
         (Some [''email'' \<mapsto> JStr ''root@erp.io'', ''role'' \<mapsto> JStr ''super_admin'']))
   \<and> proceeds (fst (ensureSuperAdminOrCorrectUser
        (request [] [(''email'', ''ann@erp.io'')]
           (Some [''email'' \<mapsto> JStr ''ann@erp.io'', ''role'' \<mapsto> JStr ''user'']))))
   \<and> ensureSuperAdminOrCorrectUser
        (request [] [(''email'', ''ann@erp.io'')]
           (Some [''email'' \<mapsto> JStr ''bob@erp.io'', ''role'' \<mapsto> JStr ''user'']))
     = (Throws (UnauthorizedError None),
        request [] [(''email'', ''ann@erp.io'')]
           (Some [''email'' \<mapsto> JStr ''bob@erp.io'', ''role'' \<mapsto> JStr ''user'']))"
  using ensureSuperAdminOrCorrectUser_cases
      [of "request [] [(''email'', ''ann@erp.io'')]
         (Some [''email'' \<mapsto> JStr ''root@erp.io'', ''role'' \<mapsto> JStr ''super_admin''])"]
    ensureSuperAdminOrCorrectUser_cases
      [of "request [] [(''email'', ''ann@erp.io'')]
           (Some [''email'' \<mapsto> JStr ''ann@erp.io'', ''role'' \<mapsto> JStr ''user''])"]
    ensureSuperAdminOrCorrectUser_cases
      [of "request [] [(''email'', ''ann@erp.io'')]
           (Some [''email'' \<mapsto> JStr ''bob@erp.io'', ''role'' \<mapsto> JStr ''user''])"]
  by (simp add: request_def get_field_def ensureCorrectUser_def proceeds_def)

section \<open>Membership: claims C1, C2, C7, C9\<close>

text \<open>
  C1, as the specification states it: \<open>ensureDatabaseUser\<close> proceeds when id, resource
  and membership are there, and in every other case fails with \<open>UnauthorizedError\<close>.
  With an id, a database id and a storage that cannot be reached, the lookup confirms
  nothing, and the predicate fails with the error of the storage instead.
\<close>

theorem ensureDatabaseUser_storage_failure_counterexample:
  "isUserLinkedToDatabase (unreachable ''connection refused'') (JNum 5) ''9'' \<noteq> Inr True
   \<and> ensureDatabaseUser (unreachable ''connection refused'')
        (request [(''database-id'', ''9'')] [] (Some [''id'' \<mapsto> JNum 5]))
       = (NextErr (DataAccessError ''connection refused''),
          request [(''database-id'', ''9'')] [] (Some [''id'' \<mapsto> JNum 5]))
   \<and> \<not> is_unauthorized (DataAccessError ''connection refused'')"
  by (simp add: ensureDatabaseUser_def isUserLinkedToDatabase_def unreachable_def get_field_def
      request_def is_unauthorized_def)

text \<open>
  C1, amended: on a request without route parameters, \<open>ensureDatabaseUser\<close> proceeds
  exactly when the identity has a truthy \<open>id\<close>, the \<open>database-id\<close> header is there
  and not empty, and the membership lookup for that pair returns true; when the lookup
  itself fails, the predicate fails with the error of the lookup, which is not an
  \<open>UnauthorizedError\<close>; in every other case it fails with \<open>UnauthorizedError\<close>.
\<close>

theorem ensureDatabaseUser_decision:
  assumes "params ctx = Map.empty"
  shows "(proceeds (fst (ensureDatabaseUser q ctx)) \<longleftrightarrow>
            (\<exists>uid did. get_field (user ctx) ''id'' = Some uid \<and> truthy (Some uid)
               \<and> headers ctx ''database-id'' = Some did \<and> did \<noteq> []
               \<and> isUserLinkedToDatabase q uid did = Inr True))
       \<and> (\<forall>uid did e. get_field (user ctx) ''id'' = Some uid \<and> truthy (Some uid)
               \<and> headers ctx ''database-id'' = Some did \<and> did \<noteq> []
               \<and> isUserLinkedToDatabase q uid did = Inl e
            \<longrightarrow> ensureDatabaseUser q ctx = (NextErr e, ctx) \<and> \<not> is_unauthorized e)
       \<and> (\<not> proceeds (fst (ensureDatabaseUser q ctx))
           \<and> \<not> (\<exists>uid did e. get_field (user ctx) ''id'' = Some uid \<and> truthy (Some uid)
               \<and> headers ctx ''database-id'' = Some did \<and> did \<noteq> []
               \<and> isUserLinkedToDatabase q uid did = Inl e)
            \<longrightarrow> (\<exists>m. ensureDatabaseUser q ctx = (NextErr (UnauthorizedError m), ctx)))"
proof (cases "truthy (get_field (user ctx) ''id'')")
  case False
  then show ?thesis
    by (auto simp: ensureDatabaseUser_no_id proceeds_def)
next
  case id: True
  then obtain uid where uid: "get_field (user ctx) ''id'' = Some uid" "truthy (Some uid)"
    by (cases "get_field (user ctx) ''id''") auto
  show ?thesis
  proof (cases "headers ctx ''database-id'' = None \<or> headers ctx ''database-id'' = Some []")
    case True
    then show ?thesis
      using id by (auto simp: ensureDatabaseUser_no_database proceeds_def)
  next
    case False
    then obtain did where did: "headers ctx ''database-id'' = Some did" "did \<noteq> []"
      by auto
    show ?thesis
    proof (cases "isUserLinkedToDatabase q uid did")
      case (Inl e)
      then show ?thesis
        using uid did isUserLinkedToDatabase_error [OF Inl]
        by (auto simp: ensureDatabaseUser_lookup proceeds_def is_unauthorized_def)
    next
      case (Inr b)
      then show ?thesis
        using uid did by (auto simp: ensureDatabaseUser_lookup proceeds_def)
    qed
  qed
qed

text \<open>User 5 asking for database 9: as a member, as a member of database 8 only, and
  without the header.\<close>

theorem ensureDatabaseUser_decision_witness:
  "params (request [(''database-id'', ''9'')] [] (Some [''id'' \<mapsto> JNum 5])) = Map.empty
   \<and> proceeds (fst (ensureDatabaseUser (stored_rows [(5, ''9'')])
        (request [(''database-id'', ''9'')] [] (Some [''id'' \<mapsto> JNum 5]))))
   \<and> \<not> proceeds (fst (ensureDatabaseUser (stored_rows [(5, ''8'')])
        (request [(''database-id'', ''9'')] [] (Some [''id'' \<mapsto> JNum 5]))))
   \<and> \<not> proceeds (fst (ensureDatabaseUser (stored_rows [(5, ''9'')])
        (request [] [] (Some [''id'' \<mapsto> JNum 5]))))"
  using ensureDatabaseUser_decision
      [of "request [(''database-id'', ''9'')] [] (Some [''id'' \<mapsto> JNum 5])"
        "stored_rows [(5, ''9'')]"]
    ensureDatabaseUser_decision
      [of "request [(''database-id'', ''9'')] [] (Some [''id'' \<mapsto> JNum 5])"
        "stored_rows [(5, ''8'')]"]
    ensureDatabaseUser_decision
      [of "request [] [] (Some [''id'' \<mapsto> JNum 5])" "stored_rows [(5, ''9'')]"]
  by (simp add: request_def get_field_def stored_rows_def isUserLinkedToDatabase_def)

text \<open>
  C7. When the query of the membership lookup fails, \<open>isUserLinkedToDatabase\<close> fails
  with that error, a \<open>DataAccessError\<close> and not an \<open>UnauthorizedError\<close>, instead of
  returning false, and \<open>ensureDatabaseUser\<close>, once it has an id and a database id to
  look up, hands that same error to \<open>next\<close>. When the query succeeds the lookup returns
  whether there is a row: false for no row, without an error.
\<close>

theorem storage_failure_propagates:
  "(\<forall>msg. q uid did = Inl msg \<longrightarrow>
       isUserLinkedToDatabase q uid did = Inl (DataAccessError msg)
       \<and> \<not> is_unauthorized (DataAccessError msg)
       \<and> (get_field (user ctx) ''id'' = Some uid \<and> truthy (Some uid)
            \<and> headers ctx ''database-id'' = Some did \<and> did \<noteq> []
          \<longrightarrow> ensureDatabaseUser q ctx = (NextErr (DataAccessError msg), ctx)))
   \<and> (\<forall>rows. q uid did = Inr rows \<longrightarrow> isUserLinkedToDatabase q uid did = Inr (rows \<noteq> []))"
  by (auto simp: ensureDatabaseUser_lookup isUserLinkedToDatabase_def is_unauthorized_def)

theorem storage_failure_propagates_witness:
  "unreachable ''connection refused'' (JNum 5) ''9'' = Inl ''connection refused''
   \<and> isUserLinkedToDatabase (unreachable ''connection refused'') (JNum 5) ''9''
       = Inl (DataAccessError ''connection refused'')
   \<and> ensureDatabaseUser (unreachable ''connection refused'')
        (request [(''database-id'', ''9'')] [] (Some [''id'' \<mapsto> JNum 5]))
       = (NextErr (DataAccessError ''connection refused''),
          request [(''database-id'', ''9'')] [] (Some [''id'' \<mapsto> JNum 5]))
   \<and> isUserLinkedToDatabase (stored_rows [(5, ''8'')]) (JNum 5) ''9'' = Inr False"
  using storage_failure_propagates
      [of "unreachable ''connection refused''" "JNum 5" "''9''"
        "request [(''database-id'', ''9'')] [] (Some [''id'' \<mapsto> JNum 5])"]
    storage_failure_propagates
      [of "stored_rows [(5, ''8'')]" "JNum 5" "''9''"
        "request [(''database-id'', ''9'')] [] (Some [''id'' \<mapsto> JNum 5])"]
  by (simp add: request_def get_field_def stored_rows_def unreachable_def)

text \<open>
  C9, as the specification states it: every predicate leaves the context unchanged and
  either proceeds or fails with \<open>UnauthorizedError\<close>. \<open>ensureDatabaseUser\<close> on a
  storage that cannot be reached does neither.
\<close>

theorem predicates_storage_failure_counterexample:
  "\<not> unchanged_or_unauthorized
        (request [(''database-id'', ''12'')] []
           (Some [''id'' \<mapsto> JNum 7, ''email'' \<mapsto> JStr ''bob@erp.io'']))
        (ensureDatabaseUser (unreachable ''timeout'')
           (request [(''database-id'', ''12'')] []
              (Some [''id'' \<mapsto> JNum 7, ''email'' \<mapsto> JStr ''bob@erp.io''])))"
  by (simp add: unchanged_or_unauthorized_def ensureDatabaseUser_def isUserLinkedToDatabase_def
      unreachable_def get_field_def request_def is_unauthorized_def proceeds_def)

text \<open>
  C9, amended: each of the five predicates leaves the request context as it was. Each of
  \<open>ensureLoggedIn\<close>, \<open>ensureSuperAdmin\<close>, \<open>ensureCorrectUser\<close> and
  \<open>ensureSuperAdminOrCorrectUser\<close> either proceeds or fails with
  \<open>UnauthorizedError\<close>; \<open>ensureDatabaseUser\<close> does one of the two as well, or, when
  the query of its membership lookup fails, fails with that \<open>DataAccessError\<close>. A
  predicate that fails does not proceed to the handler.
\<close>

theorem predicates_leave_context_unchanged:
  "unchanged_or_unauthorized ctx (ensureLoggedIn ctx)
   \<and> unchanged_or_unauthorized ctx (ensureSuperAdmin ctx)
   \<and> unchanged_or_unauthorized ctx (ensureCorrectUser ctx)
   \<and> unchanged_or_unauthorized ctx (ensureSuperAdminOrCorrectUser ctx)
   \<and> (unchanged_or_unauthorized ctx (ensureDatabaseUser q ctx)
       \<or> (\<exists>uid did msg. get_field (user ctx) ''id'' = Some uid \<and> truthy (Some uid)
             \<and> headers ctx ''database-id'' = Some did \<and> did \<noteq> []
             \<and> q uid did = Inl msg
             \<and> ensureDatabaseUser q ctx = (NextErr (DataAccessError msg), ctx)))
   \<and> (\<forall>r \<in> {ensureLoggedIn ctx, ensureSuperAdmin ctx, ensureCorrectUser ctx,
              ensureSuperAdminOrCorrectUser ctx, ensureDatabaseUser q ctx}.
         failure (fst r) \<noteq> None \<longrightarrow> \<not> proceeds (fst r))"
proof -
  have "unchanged_or_unauthorized ctx (ensureLoggedIn ctx)"
    by (simp add: unchanged_or_unauthorized_def ensureLoggedIn_def proceeds_def
        is_unauthorized_def)
  moreover have "unchanged_or_unauthorized ctx (ensureSuperAdmin ctx)"
    by (simp add: unchanged_or_unauthorized_def ensureSuperAdmin_def proceeds_def
        is_unauthorized_def)
  moreover have "unchanged_or_unauthorized ctx (ensureCorrectUser ctx)"
    by (simp add: unchanged_or_unauthorized_def ensureCorrectUser_def Let_def proceeds_def
        is_unauthorized_def)
  moreover have "unchanged_or_unauthorized ctx (ensureSuperAdminOrCorrectUser ctx)"
    by (simp add: unchanged_or_unauthorized_def ensureSuperAdminOrCorrectUser_def Let_def
        proceeds_def is_unauthorized_def)
  moreover have "unchanged_or_unauthorized ctx (ensureDatabaseUser q ctx)
       \<or> (\<exists>uid did msg. get_field (user ctx) ''id'' = Some uid \<and> truthy (Some uid)
             \<and> headers ctx ''database-id'' = Some did \<and> did \<noteq> []
             \<and> q uid did = Inl msg
             \<and> ensureDatabaseUser q ctx = (NextErr (DataAccessError msg), ctx))"
  proof (cases "truthy (get_field (user ctx) ''id'')")
    case False
    then show ?thesis
      by (simp add: ensureDatabaseUser_no_id unchanged_or_unauthorized_def is_unauthorized_def)
  next
    case id: True
    then obtain uid where uid: "get_field (user ctx) ''id'' = Some uid" "truthy (Some uid)"
      by (cases "get_field (user ctx) ''id''") auto
    show ?thesis
    proof (cases "headers ctx ''database-id'' = None \<or> headers ctx ''database-id'' = Some []")
      case True
      then show ?thesis
        using id
        by (simp add: ensureDatabaseUser_no_database unchanged_or_unauthorized_def
            is_unauthorized_def)
    next
      case False
      then obtain did where did: "headers ctx ''database-id'' = Some did" "did \<noteq> []"
        by auto
      show ?thesis
        using uid did
        by (cases "q uid did")
          (auto simp: ensureDatabaseUser_lookup isUserLinkedToDatabase_def
            unchanged_or_unauthorized_def is_unauthorized_def proceeds_def)
    qed
  qed
  moreover have "\<And>s. failure s \<noteq> None \<longrightarrow> \<not> proceeds s"
    by (simp add: proceeds_iff_no_failure)
  ultimately show ?thesis
    by blast
qed

text \<open>A user who is a member of database 12, asking for their own route.\<close>

theorem predicates_leave_context_unchanged_witness:
  "snd (ensureDatabaseUser (stored_rows [(7, ''12'')])
          (request [(''database-id'', ''12'')] [(''email'', ''bob@erp.io'')]
             (Some [''id'' \<mapsto> JNum 7, ''email'' \<mapsto> JStr ''bob@erp.io''])))
     = request [(''database-id'', ''12'')] [(''email'', ''bob@erp.io'')]
             (Some [''id'' \<mapsto> JNum 7, ''email'' \<mapsto> JStr ''bob@erp.io''])
   \<and> proceeds (fst (ensureDatabaseUser (stored_rows [(7, ''12'')])
          (request [(''database-id'', ''12'')] [(''email'', ''bob@erp.io'')]
             (Some [''id'' \<mapsto> JNum 7, ''email'' \<mapsto> JStr ''bob@erp.io'']))))
   \<and> failure (fst (ensureSuperAdmin
          (request [(''database-id'', ''12'')] [(''email'', ''bob@erp.io'')]
             (Some [''id'' \<mapsto> JNum 7, ''email'' \<mapsto> JStr ''bob@erp.io'']))))
       = Some (UnauthorizedError None)
   \<and> \<not> proceeds (fst (ensureSuperAdmin
          (request [(''database-id'', ''12'')] [(''email'', ''bob@erp.io'')]
             (Some [''id'' \<mapsto> JNum 7, ''email'' \<mapsto> JStr ''bob@erp.io'']))))"
  using predicates_leave_context_unchanged
      [of "request [(''database-id'', ''12'')] [(''email'', ''bob@erp.io'')]
             (Some [''id'' \<mapsto> JNum 7, ''email'' \<mapsto> JStr ''bob@erp.io''])"
        "stored_rows [(7, ''12'')]"]
  by (simp add: request_def get_field_def stored_rows_def unchanged_or_unauthorized_def
      ensureSuperAdmin_def ensureDatabaseUser_def isUserLinkedToDatabase_def proceeds_def)

text \<open>
  C2. Take a request that carries a token issued by \<open>createToken\<close>, for any user, with
  or without an id, and let \<open>authenticateJWT\<close> resolve its identity. If verification
  yields no field beyond those of the signed payload and \<open>iat\<close>, the identity has no
  \<open>id\<close>, and \<open>ensureDatabaseUser\<close> fails with \<open>UnauthorizedError\<close> at its first
  check, whatever the storage holds.
\<close>

theorem issued_token_is_never_member:
  assumes lib: "verify_adds_only_iat sign verify k"
      and fresh: "user ctx = None"
      and hdr: "headers ctx ''authorization'' = Some h"
      and tok: "trim (replace_bearer h) = createToken sign k usr"
  shows "get_field (user (snd (authenticateJWT verify k ctx))) ''id'' = None
         \<and> ensureDatabaseUser q (snd (authenticateJWT verify k ctx)) =
             (NextErr (UnauthorizedError (Some ''User authentication required.'')),
              snd (authenticateJWT verify k ctx))"
proof -
  let ?ctx' = "snd (authenticateJWT verify k ctx)"
  have "get_field (user ?ctx') ''id'' = None"
  proof (cases "h \<noteq> [] \<and> (\<exists>c. verify (createToken sign k usr) k = Inr c)")
    case True
    then obtain c where c: "verify (createToken sign k usr) k = Inr c" and h: "h \<noteq> []"
      by blast
    from c lib have "dom c \<subseteq> dom (usr |` {''email'', ''role''}) \<union> {''iat''}"
      unfolding verify_adds_only_iat_def createToken_payload by blast
    then have "''id'' \<notin> dom c"
      by auto
    then have "c ''id'' = None"
      by blast
    moreover have "user ?ctx' = Some c"
      using hdr tok c h by (simp add: authenticateJWT_result)
    ultimately show ?thesis
      by (simp add: get_field_def)
  next
    case False
    then have "user ?ctx' = None"
      using hdr tok fresh
      by (cases "verify (createToken sign k usr) k") (auto simp: authenticateJWT_result)
    then show ?thesis
      by (simp add: get_field_def)
  qed
  then show ?thesis
    by (simp add: ensureDatabaseUser_no_id)
qed

text \<open>User 5, a member of database 9, logs in and asks for database 9 with the token
  received.\<close>

theorem issued_token_is_never_member_witness:
  "verify_adds_only_iat plain_sign plain_verify ''key''
   \<and> trim (replace_bearer ''Bearer key|ann@erp.io'')
       = createToken plain_sign ''key''
           [''id'' \<mapsto> JNum 5, ''email'' \<mapsto> JStr ''ann@erp.io'', ''role'' \<mapsto> JStr ''user'']
   \<and> user (snd (authenticateJWT plain_verify ''key''
        (request [(''authorization'', ''Bearer key|ann@erp.io''), (''database-id'', ''9'')]
           [] None)))
       = Some [''email'' \<mapsto> JStr ''ann@erp.io'', ''iat'' \<mapsto> JNum 0]
   \<and> isUserLinkedToDatabase (stored_rows [(5, ''9'')]) (JNum 5) ''9'' = Inr True
   \<and> fst (ensureDatabaseUser (stored_rows [(5, ''9'')])
        (snd (authenticateJWT plain_verify ''key''
          (request [(''authorization'', ''Bearer key|ann@erp.io''), (''database-id'', ''9'')]
             [] None))))
       = NextErr (UnauthorizedError (Some ''User authentication required.''))"
proof -
  have tok: "trim (replace_bearer ''Bearer key|ann@erp.io'')
       = createToken plain_sign ''key''
           [''id'' \<mapsto> JNum 5, ''email'' \<mapsto> JStr ''ann@erp.io'', ''role'' \<mapsto> JStr ''user'']"
    by (simp add: trim_def replace_bearer_def js_whitespace_def createToken_def plain_sign_def)
  have att: "user (snd (authenticateJWT plain_verify ''key''
        (request [(''authorization'', ''Bearer key|ann@erp.io''), (''database-id'', ''9'')]
           [] None)))
       = Some [''email'' \<mapsto> JStr ''ann@erp.io'', ''iat'' \<mapsto> JNum 0]"
    by (simp add: authenticateJWT_def request_def trim_def replace_bearer_def js_whitespace_def
        plain_verify_def begins_with_def)
  have mem: "isUserLinkedToDatabase (stored_rows [(5, ''9'')]) (JNum 5) ''9'' = Inr True"
    by (simp add: isUserLinkedToDatabase_def stored_rows_def)
  have "user (request [(''authorization'', ''Bearer key|ann@erp.io''), (''database-id'', ''9'')]
           [] None) = None"
    and "headers (request [(''authorization'', ''Bearer key|ann@erp.io''),
           (''database-id'', ''9'')] [] None) ''authorization''
         = Some ''Bearer key|ann@erp.io''"
    by (simp_all add: request_def)
  from issued_token_is_never_member [OF plain_adds_only_iat this tok]
  show ?thesis
    using tok att mem plain_adds_only_iat by simp
qed

end
